theory Spec2Isabelle
  imports Main "HOL-Library.Word"
begin

section \<open>The command runner of plugins/RunCommand/execute\_command.py\<close>

text \<open>
  The module holds one function, \<^verbatim>\<open>execute_command\<close>, which runs an external
  program through the \<^verbatim>\<open>subprocess\<close> module it is handed, decodes the captured
  output and maps the exceptions of the process layer to a result dictionary.

  The embedding follows the function statement by statement. Python values that the
  code inspects at run time are a datatype, exceptions are values of a sum type
  (\<open>Inl\<close> is an exception leaving the function), the result dictionary is a record,
  and the parts of the Python runtime the function calls (the codecs, \<^verbatim>\<open>shlex.split\<close>,
  \<^verbatim>\<open>str\<close> of an object, \<^verbatim>\<open>subprocess.run\<close>) are parameters. Strings hold the code
  points below 256, timeouts are integers.
\<close>

subsection \<open>Python values and exceptions\<close>

type_synonym bytes = "8 word list"

text \<open>The values a caller can pass as \<^verbatim>\<open>command\<close>.\<close>

datatype pyval =
    PNone
  | PInt int
  | PStr string
  | PList "pyval list"
  | PTuple "pyval list"

text \<open>
  Exceptions, by the classes the \<^verbatim>\<open>except\<close> clauses of the source tell apart.
  \<open>OtherException n m\<close> is an instance of any further subclass of \<^verbatim>\<open>Exception\<close>
  (class name \<open>n\<close>, message \<open>m\<close>): \<^verbatim>\<open>ValueError\<close>, \<^verbatim>\<open>LookupError\<close>,
  \<^verbatim>\<open>UnicodeEncodeError\<close>, \<^verbatim>\<open>TypeError\<close>, \<^verbatim>\<open>AttributeError\<close>, \<^verbatim>\<open>IndexError\<close>.
  \<open>OtherBaseException n m\<close> is an instance of a class that derives from
  \<^verbatim>\<open>BaseException\<close> but not from \<^verbatim>\<open>Exception\<close>, other than
  \<^verbatim>\<open>KeyboardInterrupt\<close>: \<^verbatim>\<open>SystemExit\<close>, \<^verbatim>\<open>GeneratorExit\<close>.
  The fields of \<open>CalledProcessError\<close> are \<^verbatim>\<open>returncode\<close>, \<^verbatim>\<open>stdout\<close>, \<^verbatim>\<open>stderr\<close>
  and \<^verbatim>\<open>str(e)\<close>; those of \<open>TimeoutExpired\<close> are \<^verbatim>\<open>stdout\<close>, \<^verbatim>\<open>stderr\<close> and
  \<^verbatim>\<open>str(e)\<close>; the others carry \<^verbatim>\<open>str(e)\<close>.
\<close>

datatype pyexc =
    CalledProcessError int "bytes option" "bytes option" string
  | TimeoutExpired "bytes option" "bytes option" string
  | FileNotFoundError string
  | PermissionError string
  | KeyboardInterrupt
  | UnicodeDecodeError string
  | OtherException string string
  | OtherBaseException string string

text \<open>\<^verbatim>\<open>isinstance(e, Exception)\<close>.\<close>

fun is_Exception :: "pyexc \<Rightarrow> bool" where
  "is_Exception KeyboardInterrupt = False"
| "is_Exception (OtherBaseException n m) = False"
| "is_Exception e = True"

text \<open>\<^verbatim>\<open>type(e).__name__\<close> and \<^verbatim>\<open>str(e)\<close>.\<close>

fun exc_name :: "pyexc \<Rightarrow> string" where
  "exc_name (CalledProcessError rc out err m) = ''CalledProcessError''"
| "exc_name (TimeoutExpired out err m) = ''TimeoutExpired''"
| "exc_name (FileNotFoundError m) = ''FileNotFoundError''"
| "exc_name (PermissionError m) = ''PermissionError''"
| "exc_name KeyboardInterrupt = ''KeyboardInterrupt''"
| "exc_name (UnicodeDecodeError m) = ''UnicodeDecodeError''"
| "exc_name (OtherException n m) = n"
| "exc_name (OtherBaseException n m) = n"

fun exc_str :: "pyexc \<Rightarrow> string" where
  "exc_str (CalledProcessError rc out err m) = m"
| "exc_str (TimeoutExpired out err m) = m"
| "exc_str (FileNotFoundError m) = m"
| "exc_str (PermissionError m) = m"
| "exc_str KeyboardInterrupt = []"
| "exc_str (UnicodeDecodeError m) = m"
| "exc_str (OtherException n m) = m"
| "exc_str (OtherBaseException n m) = m"

subsection \<open>The process layer and the runtime\<close>

text \<open>
  An environment is a Python \<^verbatim>\<open>dict\<close> from names to values.
  \<^verbatim>\<open>input_data\<close> is a \<^verbatim>\<open>str\<close> or a \<^verbatim>\<open>bytes\<close> object.
\<close>

type_synonym dict = "string \<rightharpoonup> string"

datatype input_data = InStr string | InBytes bytes

datatype redirect = PIPE

text \<open>
  The keyword arguments \<^verbatim>\<open>params\<close> handed to \<^verbatim>\<open>subprocess.run\<close>. The keys
  \<^verbatim>\<open>input\<close> and \<^verbatim>\<open>env\<close> are optional: \<open>None\<close> is an absent key.
\<close>

record run_params =
  p_args :: pyval
  p_stdout :: redirect
  p_stderr :: redirect
  p_text :: bool
  p_timeout :: int
  p_shell :: bool
  p_input :: "bytes option"
  p_env :: "dict option"

text \<open>\<^verbatim>\<open>subprocess.CompletedProcess\<close>, as far as the function reads it.\<close>

record completed_process =
  cp_stdout :: "bytes option"
  cp_stderr :: "bytes option"
  cp_returncode :: int

text \<open>
  The \<^verbatim>\<open>subprocess\<close> argument: \<^verbatim>\<open>run\<close> returns a completed process or raises.
  Its attributes \<^verbatim>\<open>PIPE\<close>, \<^verbatim>\<open>CalledProcessError\<close> and \<^verbatim>\<open>TimeoutExpired\<close> are the
  constant and the two exception classes above.
\<close>

record subprocess_module =
  run :: "run_params \<Rightarrow> pyexc + completed_process"

text \<open>
  The runtime functions the source calls.
  \<^item> \<^verbatim>\<open>shlex.split(s)\<close>: the tokens, or \<open>None\<close> when it raises \<^verbatim>\<open>ValueError\<close>
    (no closing quotation, no escaped character), the one exception it raises on a
    string.
  \<^item> \<^verbatim>\<open>data.decode(enc, errors=err)\<close>: the text, or the exception raised.
  \<^item> \<^verbatim>\<open>s.encode(enc)\<close>: the bytes, or the class name and the message of the
    exception raised, a \<^verbatim>\<open>UnicodeEncodeError\<close> or a \<^verbatim>\<open>LookupError\<close>.
  \<^item> \<^verbatim>\<open>str(data)\<close> of a bytes object, and \<^verbatim>\<open>str(x)\<close> of an object that is neither a
    string nor an integer.
\<close>

record pylib =
  shlex_split :: "string \<Rightarrow> string list option"
  decode :: "bytes \<Rightarrow> string \<Rightarrow> string \<Rightarrow> pyexc + string"
  encode :: "string \<Rightarrow> string \<Rightarrow> string \<times> string + bytes"
  str_bytes :: "bytes \<Rightarrow> string"
  str_object :: "pyval \<Rightarrow> string"

text \<open>
  The state a call can touch: the dictionaries on the heap, by address, among them
  \<^verbatim>\<open>os.environ\<close>; and the requests handed to \<^verbatim>\<open>subprocess.run\<close> so far, oldest
  first.
\<close>

record world =
  heap :: "nat \<Rightarrow> dict"
  next_free :: nat
  os_environ :: nat
  spawned :: "run_params list"

text \<open>The result dictionary; the key \<^verbatim>\<open>timeout\<close> is optional.\<close>

record outcome =
  stdout :: "string option"
  stderr :: string
  returncode :: int
  timeout_key :: "bool option"

subsection \<open>Built-in operations\<close>

text \<open>\<^verbatim>\<open>str.isspace\<close> on the code points below 256.\<close>

definition isspace :: "char \<Rightarrow> bool" where
  "isspace c = (of_char c \<in> {9, 10, 11, 12, 13, 28, 29, 30, 31, 32, 133, 160 :: nat})"

text \<open>
  \<^verbatim>\<open>s.split()\<close>: the maximal runs of characters that are not whitespace. The first
  argument is the run being read, reversed.
\<close>

fun split_run :: "string \<Rightarrow> string \<Rightarrow> string list" where
  "split_run cur [] = (if cur = [] then [] else [rev cur])"
| "split_run cur (c # cs) =
     (if isspace c then (if cur = [] then split_run [] cs else rev cur # split_run [] cs)
      else split_run (c # cur) cs)"

definition str_split :: "string \<Rightarrow> string list" where
  "str_split s = split_run [] s"

text \<open>\<^verbatim>\<open>str(n)\<close> of an integer.\<close>

fun str_nat :: "nat \<Rightarrow> string" where
  "str_nat n =
     (if n < 10 then [''0123456789'' ! n] else str_nat (n div 10) @ [''0123456789'' ! (n mod 10)])"

declare str_nat.simps [simp del]

definition str_int :: "int \<Rightarrow> string" where
  "str_int i = (if i < 0 then CHR ''-'' # str_nat (nat (- i)) else str_nat (nat i))"

text \<open>A replacement field of an f-string: a string is inserted as it is.\<close>

definition format_value :: "pylib \<Rightarrow> pyval \<Rightarrow> string" where
  "format_value lib x = (case x of PStr s \<Rightarrow> s | PInt i \<Rightarrow> str_int i | _ \<Rightarrow> str_object lib x)"

text \<open>\<^verbatim>\<open>os.environ.copy()\<close> allocates a new dictionary with the same items.\<close>

definition os_environ_copy :: "world \<Rightarrow> nat \<times> world" where
  "os_environ_copy w =
     (let a = next_free w
      in (a, w\<lparr>heap := (heap w)(a := heap w (os_environ w)), next_free := Suc a\<rparr>))"

text \<open>\<^verbatim>\<open>env.update(other)\<close> stores the items of \<open>other\<close> into the dictionary at \<open>a\<close>.\<close>

definition dict_update :: "nat \<Rightarrow> dict \<Rightarrow> world \<Rightarrow> world" where
  "dict_update a other w =
     w\<lparr>heap := (heap w)(a := heap w a ++ other)\<rparr>"


subsection \<open>safe\_decode (lines 20 to 31)\<close>

text \<open>
  An exception raised by the second \<^verbatim>\<open>decode\<close> is raised inside the handler of
  \<^verbatim>\<open>UnicodeDecodeError\<close>, so the clause \<^verbatim>\<open>except Exception\<close> of the same
  \<^verbatim>\<open>try\<close> statement does not see it.
\<close>

fun safe_decode :: "pylib \<Rightarrow> string \<Rightarrow> string \<Rightarrow> bytes option \<Rightarrow> pyexc + string" where
  "safe_decode lib enc err None = Inr []"
| "safe_decode lib enc err (Some data) =
     (case decode lib data enc err of
        Inr s \<Rightarrow> Inr s
      | Inl (UnicodeDecodeError m) \<Rightarrow> decode lib data enc ''replace''
      | Inl e \<Rightarrow> if is_Exception e then Inr (str_bytes lib data) else Inl e)"

subsection \<open>execute\_command\<close>

text \<open>Line 34: \<^verbatim>\<open>isinstance(command, (list, tuple, str))\<close>.\<close>

fun isinstance_list_tuple_str :: "pyval \<Rightarrow> bool" where
  "isinstance_list_tuple_str (PList xs) = True"
| "isinstance_list_tuple_str (PTuple xs) = True"
| "isinstance_list_tuple_str (PStr s) = True"
| "isinstance_list_tuple_str x = False"

text \<open>
  Lines 42 to 50: the command and \<^verbatim>\<open>use_shell\<close> after the attempt to split a
  string.
\<close>

definition prepare_command :: "pylib \<Rightarrow> pyval \<Rightarrow> bool \<Rightarrow> pyval \<times> bool" where
  "prepare_command lib command shell =
     (case command of
        PStr s \<Rightarrow>
          if \<not> shell then
            (case shlex_split lib s of
               Some ts \<Rightarrow> (PList (map PStr ts), shell)
             | None \<Rightarrow> (command, True))
          else (command, shell)
      | _ \<Rightarrow> (command, shell))"

text \<open>Lines 64 to 68: the bytes for the key \<^verbatim>\<open>input\<close>.\<close>

definition encode_input :: "pylib \<Rightarrow> string \<Rightarrow> input_data option \<Rightarrow> pyexc + bytes option" where
  "encode_input lib encoding input_data =
     (case input_data of
        None \<Rightarrow> Inr None
      | Some (InBytes b) \<Rightarrow> Inr (Some b)
      | Some (InStr s) \<Rightarrow>
          (case encode lib s encoding of
             Inl (n, m) \<Rightarrow> Inl (OtherException n m)
           | Inr b \<Rightarrow> Inr (Some b)))"

text \<open>Lines 70 to 75: the dictionary for the key \<^verbatim>\<open>env\<close>.\<close>

definition merge_environment :: "dict option \<Rightarrow> world \<Rightarrow> dict option \<times> world" where
  "merge_environment environment w =
     (case environment of
        None \<Rightarrow> (None, w)
      | Some other \<Rightarrow>
          (let (env, w1) = os_environ_copy w;
               w2 = dict_update env other w1
           in (Some (heap w2 env), w2)))"

text \<open>Lines 54 to 75: the keyword arguments for \<^verbatim>\<open>subprocess.run\<close>.\<close>

definition build_params ::
  "pylib \<Rightarrow> pyval \<Rightarrow> int \<Rightarrow> string \<Rightarrow> bool \<Rightarrow> input_data option \<Rightarrow> dict option \<Rightarrow>
   world \<Rightarrow> (pyexc + run_params) \<times> world" where
  "build_params lib command timeout encoding use_shell input_data environment w =
     (case encode_input lib encoding input_data of
        Inl e \<Rightarrow> (Inl e, w)
      | Inr inp \<Rightarrow>
          (let (env, w1) = merge_environment environment w
           in (Inr \<lparr>p_args = command, p_stdout = PIPE, p_stderr = PIPE, p_text = False,
                    p_timeout = timeout, p_shell = use_shell, p_input = inp, p_env = env\<rparr>,
               w1)))"

text \<open>
  Lines 53 to 88: the body of the \<^verbatim>\<open>try\<close> statement. The request is logged when it
  is handed to \<^verbatim>\<open>subprocess.run\<close>.
\<close>

definition try_body ::
  "pylib \<Rightarrow> pyval \<Rightarrow> subprocess_module \<Rightarrow> int \<Rightarrow> string \<Rightarrow> string \<Rightarrow> bool \<Rightarrow>
   input_data option \<Rightarrow> dict option \<Rightarrow> world \<Rightarrow> (pyexc + outcome) \<times> world" where
  "try_body lib command subprocess timeout encoding errors use_shell input_data environment w =
     (case build_params lib command timeout encoding use_shell input_data environment w of
        (Inl e, w1) \<Rightarrow> (Inl e, w1)
      | (Inr params, w1) \<Rightarrow>
          (let w2 = w1\<lparr>spawned := spawned w1 @ [params]\<rparr>
           in case run subprocess params of
                Inl e \<Rightarrow> (Inl e, w2)
              | Inr result \<Rightarrow>
                  (case safe_decode lib encoding errors (cp_stdout result) of
                     Inl e \<Rightarrow> (Inl e, w2)
                   | Inr out \<Rightarrow>
                       (case safe_decode lib encoding errors (cp_stderr result) of
                          Inl e \<Rightarrow> (Inl e, w2)
                        | Inr err \<Rightarrow>
                            (Inr \<lparr>stdout = Some out, stderr = err,
                                  returncode = cp_returncode result, timeout_key = None\<rparr>, w2)))))"

text \<open>The message of the \<^verbatim>\<open>AttributeError\<close> for a missing method \<^verbatim>\<open>split\<close>.\<close>

definition no_attribute_split :: "string \<Rightarrow> string" where
  "no_attribute_split ty =
     [CHR 0x27] @ ty @ [CHR 0x27] @ '' object has no attribute '' @ [CHR 0x27] @ ''split'' @ [CHR 0x27]"

text \<open>
  Lines 109 and 116:
  \<^verbatim>\<open>command[0] if isinstance(command, list) else command.split()[0]\<close>.
\<close>

definition cmd_name :: "pyval \<Rightarrow> pyexc + pyval" where
  "cmd_name command =
     (case command of
        PList xs \<Rightarrow>
          (case xs of
             [] \<Rightarrow> Inl (OtherException ''IndexError'' ''list index out of range'')
           | x # _ \<Rightarrow> Inr x)
      | PStr s \<Rightarrow>
          (case str_split s of
             [] \<Rightarrow> Inl (OtherException ''IndexError'' ''list index out of range'')
           | t # _ \<Rightarrow> Inr (PStr t))
      | PTuple xs \<Rightarrow> Inl (OtherException ''AttributeError'' (no_attribute_split ''tuple''))
      | PInt i \<Rightarrow> Inl (OtherException ''AttributeError'' (no_attribute_split ''int''))
      | PNone \<Rightarrow> Inl (OtherException ''AttributeError'' (no_attribute_split ''NoneType'')))"

text \<open>
  Lines 90 to 133: the \<^verbatim>\<open>except\<close> clauses, in the order of the source. The command
  is the one after line 50. An exception raised while a clause runs leaves the
  function; so does an exception that no clause matches.
\<close>

definition handle_exception ::
  "pylib \<Rightarrow> pyval \<Rightarrow> int \<Rightarrow> string \<Rightarrow> string \<Rightarrow> pyexc \<Rightarrow> pyexc + outcome" where
  "handle_exception lib command timeout encoding errors e =
     (case e of
        CalledProcessError rc out err m \<Rightarrow>
          (case safe_decode lib encoding errors out of
             Inl x \<Rightarrow> Inl x
           | Inr so \<Rightarrow>
               (case (if err \<noteq> None then safe_decode lib encoding errors err else Inr (exc_str e)) of
                  Inl x \<Rightarrow> Inl x
                | Inr se \<Rightarrow>
                    Inr \<lparr>stdout = Some so, stderr = se, returncode = rc, timeout_key = None\<rparr>))
      | TimeoutExpired out err m \<Rightarrow>
          (case (if out \<noteq> None then safe_decode lib encoding errors out else Inr []) of
             Inl x \<Rightarrow> Inl x
           | Inr so \<Rightarrow>
               (case (if err \<noteq> None then safe_decode lib encoding errors err else Inr []) of
                  Inl x \<Rightarrow> Inl x
                | Inr se \<Rightarrow>
                    Inr \<lparr>stdout = Some so,
                         stderr = se @ [CHR 0x0A] @ ''Command timed out after '' @ str_int timeout
                                  @ '' seconds'',
                         returncode = - 3, timeout_key = Some True\<rparr>))
      | FileNotFoundError m \<Rightarrow>
          (case cmd_name command of
             Inl x \<Rightarrow> Inl x
           | Inr n \<Rightarrow>
               Inr \<lparr>stdout = None,
                    stderr = ''Command not found: '' @ format_value lib n @ [CHR 0x0A]
                             @ ''Error: '' @ exc_str e,
                    returncode = - 4, timeout_key = None\<rparr>)
      | PermissionError m \<Rightarrow>
          (case cmd_name command of
             Inl x \<Rightarrow> Inl x
           | Inr n \<Rightarrow>
               Inr \<lparr>stdout = None,
                    stderr = ''Permission denied for command: '' @ format_value lib n @ [CHR 0x0A]
                             @ ''Error: '' @ exc_str e,
                    returncode = - 5, timeout_key = None\<rparr>)
      | KeyboardInterrupt \<Rightarrow>
          Inr \<lparr>stdout = None, stderr = ''Command execution interrupted by user'',
               returncode = - 6, timeout_key = None\<rparr>
      | OtherBaseException n m \<Rightarrow> Inl e
      | _ \<Rightarrow>
          Inr \<lparr>stdout = None,
               stderr = ''Unexpected error: '' @ exc_name e @ [CHR 0x0A] @ ''Details: '' @ exc_str e,
               returncode = - 1, timeout_key = None\<rparr>)"

text \<open>
  The function. Its first argument is the runtime, its last the state; the others are
  the arguments of the source, in its order.
\<close>

definition execute_command ::
  "pylib \<Rightarrow> pyval \<Rightarrow> subprocess_module \<Rightarrow> int \<Rightarrow> string \<Rightarrow> string \<Rightarrow> bool \<Rightarrow>
   input_data option \<Rightarrow> dict option \<Rightarrow> world \<Rightarrow> (pyexc + outcome) \<times> world" where
  "execute_command lib command subprocess timeout encoding errors shell input_data environment w =
     (if \<not> isinstance_list_tuple_str command then
        (Inr \<lparr>stdout = None, stderr = ''Error: command must be a string or list of strings'',
              returncode = - 2, timeout_key = None\<rparr>, w)
      else
        (let (command', use_shell) = prepare_command lib command shell
         in case try_body lib command' subprocess timeout encoding errors use_shell
                   input_data environment w of
              (Inr result, w') \<Rightarrow> (Inr result, w')
            | (Inl e, w') \<Rightarrow>
                (handle_exception lib command' timeout encoding errors e, w')))"

subsection \<open>The tables of the specification\<close>

text \<open>
  Section 7 of the specification: the return code of each error category, by the
  exception the \<^verbatim>\<open>try\<close> block raises. A \<open>CalledProcessError\<close> carries the exit code
  of the child; an exception outside \<^verbatim>\<open>Exception\<close> and \<^verbatim>\<open>KeyboardInterrupt\<close> has no
  row.
\<close>

fun spec_return_code :: "pyexc \<Rightarrow> int option" where
  "spec_return_code (CalledProcessError rc out err m) = Some rc"
| "spec_return_code (TimeoutExpired out err m) = Some (- 3)"
| "spec_return_code (FileNotFoundError m) = Some (- 4)"
| "spec_return_code (PermissionError m) = Some (- 5)"
| "spec_return_code KeyboardInterrupt = Some (- 6)"
| "spec_return_code (OtherBaseException n m) = None"
| "spec_return_code e = Some (- 1)"

text \<open>
  The inputs the specification accepts as \<^verbatim>\<open>command\<close>: a string, or an ordered
  sequence of strings.
\<close>

fun is_string :: "pyval \<Rightarrow> bool" where
  "is_string (PStr s) = True"
| "is_string x = False"

fun sequence_of_strings :: "pyval \<Rightarrow> bool" where
  "sequence_of_strings (PList xs) = list_all is_string xs"
| "sequence_of_strings (PTuple xs) = list_all is_string xs"
| "sequence_of_strings x = False"

subsection \<open>A runtime and a process layer to evaluate on\<close>

text \<open>
  \<^verbatim>\<open>repr\<close> of a bytes object, which is its \<^verbatim>\<open>str\<close>: printable ASCII as it is, the
  quote and the backslash escaped, the other bytes as \<^verbatim>\<open>\t\<close>, \<^verbatim>\<open>\n\<close>, \<^verbatim>\<open>\r\<close> or
  \<^verbatim>\<open>\xhh\<close>.
\<close>

definition repr_byte :: "char \<Rightarrow> 8 word \<Rightarrow> string" where
  "repr_byte q c =
     (let n = unat c in
      if n = of_char q \<or> n = 0x5C then [CHR 0x5C, char_of n]
      else if n = 9 then [CHR 0x5C, CHR ''t'']
      else if n = 10 then [CHR 0x5C, CHR ''n'']
      else if n = 13 then [CHR 0x5C, CHR ''r'']
      else if n < 32 \<or> 127 \<le> n then
        [CHR 0x5C, CHR ''x'', ''0123456789abcdef'' ! (n div 16), ''0123456789abcdef'' ! (n mod 16)]
      else [char_of n])"

definition bytes_repr :: "bytes \<Rightarrow> string" where
  "bytes_repr b =
     (let q = (if 0x27 \<in> set b \<and> 0x22 \<notin> set b then CHR 0x22 else CHR 0x27)
      in ''b'' @ [q] @ concat (map (repr_byte q) b) @ [q])"

text \<open>
  The sample runtime answers as CPython 3.11 does on the calls made in this file.
  \<^item> \<^verbatim>\<open>shlex.split\<close> of a string without quote and backslash splits at whitespace; with
    an unmatched quote it raises. (Strings with matched quotes or escapes are not
    used below; the sample refuses them too.)
  \<^item> The codec \<^verbatim>\<open>latin-1\<close> maps each byte to the code point of the same number and
    back, whatever the error policy. The codec \<^verbatim>\<open>ascii\<close> encodes code points below
    128 and raises \<^verbatim>\<open>UnicodeEncodeError\<close> on the others. The codec \<^verbatim>\<open>punycode\<close>
    raises \<^verbatim>\<open>UnicodeDecodeError\<close> on a byte string with a byte from 128 on, under
    every error policy, \<^verbatim>\<open>replace\<close> among them. Any other request is answered as
    for an encoding that does not exist, with \<^verbatim>\<open>LookupError\<close>.
  \<^item> \<^verbatim>\<open>str\<close> of an object that is neither a string nor an integer is asked below for no
    object; the sample answers as for \<^verbatim>\<open>None\<close>.
\<close>

definition to_bytes :: "string \<Rightarrow> bytes" where
  "to_bytes s = map (\<lambda>c. of_nat (of_char c)) s"

fun join_spaces :: "string list \<Rightarrow> string" where
  "join_spaces [] = []"
| "join_spaces [x] = x"
| "join_spaces (x # y # ys) = x @ '' '' @ join_spaces (y # ys)"

definition sample_shlex_split :: "string \<Rightarrow> string list option" where
  "sample_shlex_split s =
     (if CHR 0x22 \<in> set s \<or> CHR 0x27 \<in> set s \<or> CHR 0x5C \<in> set s then None
      else Some (str_split s))"

definition sample_decode :: "bytes \<Rightarrow> string \<Rightarrow> string \<Rightarrow> pyexc + string" where
  "sample_decode data enc err =
     (if enc = ''latin-1'' then Inr (map (\<lambda>b. char_of (unat b)) data)
      else if enc = ''punycode'' \<and> list_ex (\<lambda>b. 128 \<le> unat b) data then
        Inl (UnicodeDecodeError ''ordinal not in range(128)'')
      else Inl (OtherException ''LookupError'' (''unknown encoding: '' @ enc)))"

definition sample_encode :: "string \<Rightarrow> string \<Rightarrow> string \<times> string + bytes" where
  "sample_encode s enc =
     (if enc = ''latin-1'' then Inr (to_bytes s)
      else if enc = ''ascii'' then
        (if list_all (\<lambda>c. (of_char c :: nat) < 128) s then Inr (to_bytes s)
         else Inl (''UnicodeEncodeError'', ''ordinal not in range(128)''))
      else Inl (''LookupError'', ''unknown encoding: '' @ enc))"

definition sample_lib :: pylib where
  "sample_lib =
     \<lparr>shlex_split = sample_shlex_split, decode = sample_decode, encode = sample_encode,
      str_bytes = bytes_repr, str_object = (\<lambda>x. ''None'')\<rparr>"

text \<open>
  A runtime with one codec, under which the policy \<^verbatim>\<open>strict\<close> raises
  \<^verbatim>\<open>UnicodeDecodeError\<close> on a byte from 128 on and every other policy writes a question
  mark in its place. The question mark stands for the replacement character U+FFFD of
  CPython, which is beyond the code points a string holds here.
\<close>

definition lossy_decode :: "bytes \<Rightarrow> string \<Rightarrow> string \<Rightarrow> pyexc + string" where
  "lossy_decode data enc err =
     (if err = ''strict'' \<and> list_ex (\<lambda>b. 128 \<le> unat b) data then
        Inl (UnicodeDecodeError ''ordinal not in range(128)'')
      else Inr (map (\<lambda>b. if unat b < 128 then char_of (unat b) else CHR ''?'') data))"

definition lossy_lib :: pylib where
  "lossy_lib = sample_lib\<lparr>decode := lossy_decode\<rparr>"

text \<open>
  The sample process layer answers as \<^verbatim>\<open>subprocess.run\<close> does on a Linux system
  with the programs \<^verbatim>\<open>echo\<close> and \<^verbatim>\<open>sleep\<close>, a file \<^verbatim>\<open>/etc/passwd\<close> that is not
  executable, and a script \<^verbatim>\<open>./emit_ff_then_sleep\<close> that writes the byte 255 and sleeps
  for a minute.
  \<^item> An argument vector with an element that is not a string is a \<^verbatim>\<open>TypeError\<close>, an
    empty one an \<^verbatim>\<open>IndexError\<close>.
  \<^item> \<^verbatim>\<open>sleep\<close> and the script time out (every timeout below is shorter than their
    run), the script with its partial output.
  \<^item> A program that does not exist is a \<^verbatim>\<open>FileNotFoundError\<close>, the file that is not
    executable a \<^verbatim>\<open>PermissionError\<close>.
  \<^item> A shell command line \<^verbatim>\<open>kill -2 $$\<close> ends the shell by signal 2, which
    \<^verbatim>\<open>subprocess\<close> reports as the return code -2; \<^verbatim>\<open>exit 3\<close> ends it with code 3;
    a line with a double quote is a syntax error of the shell, with code 2; any other
    line names a command the shell does not find, with code 127.
\<close>

definition sample_exec :: "string list \<Rightarrow> pyexc + completed_process" where
  "sample_exec argv =
     (case argv of
        [] \<Rightarrow> Inl (OtherException ''IndexError'' ''list index out of range'')
      | prog # rest \<Rightarrow>
          if prog = ''echo'' then
            Inr \<lparr>cp_stdout = Some (to_bytes (join_spaces rest) @ [0x0A]),
                 cp_stderr = Some [], cp_returncode = 0\<rparr>
          else if prog = ''sleep'' then Inl (TimeoutExpired None None ''timed out'')
          else if prog = ''./emit_ff_then_sleep'' then
            Inl (TimeoutExpired (Some [0xFF]) None ''timed out'')
          else if prog = ''/etc/passwd'' then
            Inl (PermissionError ''[Errno 13] Permission denied'')
          else Inl (FileNotFoundError ''[Errno 2] No such file or directory''))"

fun the_strings :: "pyval list \<Rightarrow> string list option" where
  "the_strings [] = Some []"
| "the_strings (PStr s # xs) = map_option ((#) s) (the_strings xs)"
| "the_strings (x # xs) = None"

definition sample_run :: "run_params \<Rightarrow> pyexc + completed_process" where
  "sample_run p =
     (case p_args p of
        PStr s \<Rightarrow>
          if s = ''kill -2 $$'' then
            Inr \<lparr>cp_stdout = Some [], cp_stderr = Some [], cp_returncode = - 2\<rparr>
          else if s = ''exit 3'' then
            Inr \<lparr>cp_stdout = Some [], cp_stderr = Some [], cp_returncode = 3\<rparr>
          else if CHR 0x22 \<in> set s then
            Inr \<lparr>cp_stdout = Some [],
                 cp_stderr = Some (to_bytes ''/bin/sh: 1: Syntax error: Unterminated quoted string''
                                   @ [0x0A]),
                 cp_returncode = 2\<rparr>
          else
            Inr \<lparr>cp_stdout = Some [],
                 cp_stderr = Some (to_bytes (''/bin/sh: 1: '' @ s @ '': not found'') @ [0x0A]),
                 cp_returncode = 127\<rparr>
      | PList xs \<Rightarrow>
          (case the_strings xs of
             None \<Rightarrow> Inl (OtherException ''TypeError'' ''expected str, bytes or os.PathLike object'')
           | Some argv \<Rightarrow> sample_exec argv)
      | PTuple xs \<Rightarrow>
          (case the_strings xs of
             None \<Rightarrow> Inl (OtherException ''TypeError'' ''expected str, bytes or os.PathLike object'')
           | Some argv \<Rightarrow> sample_exec argv)
      | _ \<Rightarrow> Inl (OtherException ''TypeError'' ''expected str, bytes or os.PathLike object''))"

definition sample_subprocess :: subprocess_module where
  "sample_subprocess = \<lparr>run = sample_run\<rparr>"

text \<open>A process layer that leaves through \<^verbatim>\<open>sys.exit\<close> instead of running anything.\<close>

definition exiting_subprocess :: subprocess_module where
  "exiting_subprocess = \<lparr>run = (\<lambda>p. Inl (OtherBaseException ''SystemExit'' ''1''))\<rparr>"

text \<open>A state with \<^verbatim>\<open>os.environ\<close> at address 0 and nothing run so far.\<close>

definition sample_world :: world where
  "sample_world =
     \<lparr>heap = (\<lambda>a. Map.empty)(0 := [''HOME'' \<mapsto> ''/root'', ''LANG'' \<mapsto> ''C'']),
      next_free = 1, os_environ = 0, spawned = []\<rparr>"

section \<open>Properties\<close>

subsection \<open>The steps of a call\<close>

text \<open>
  Building the request logs nothing and changes nothing but the heap; it raises only what
  the encoding of the input raises. A call with a command of an accepted type is the
  \<^verbatim>\<open>try\<close> block on the prepared command, followed by the \<^verbatim>\<open>except\<close> clauses when the
  block raises.
\<close>

lemma merge_environment_spawned:
  "spawned (snd (merge_environment environment w)) = spawned w"
  by (simp add: merge_environment_def os_environ_copy_def dict_update_def Let_def
      split: option.split)

lemma execute_command_valid:
  assumes "isinstance_list_tuple_str command"
  shows "execute_command lib command subprocess timeout encoding errors shell input_data environment w =
     (case try_body lib (fst (prepare_command lib command shell)) subprocess timeout encoding errors
             (snd (prepare_command lib command shell)) input_data environment w of
        (Inr result, w') \<Rightarrow> (Inr result, w')
      | (Inl e, w') \<Rightarrow>
          (handle_exception lib (fst (prepare_command lib command shell)) timeout encoding errors e, w'))"
  using assms by (simp add: execute_command_def split_beta)

lemma build_params_spawned:
  "spawned (snd (build_params lib c t enc u inp envo w)) = spawned w"
  by (simp add: build_params_def split_beta merge_environment_spawned split: sum.split)


lemma build_params_raises:
  assumes "build_params lib c t enc u inp envo w = (Inl e, w1)"
  shows "w1 = w \<and> (\<exists>n m. e = OtherException n m)"
  using assms by (auto simp: build_params_def encode_input_def split_beta split: sum.splits option.splits input_data.splits)

text \<open>
  The two ways through the \<^verbatim>\<open>try\<close> block: the input cannot be encoded and no request is
  made, or one request is handed to \<^verbatim>\<open>subprocess.run\<close> and logged.
\<close>

lemma try_body_cases:
  obtains (no_request) e where
      "build_params lib c t enc u inp envo w = (Inl e, w)"
      "try_body lib c sp t enc errs u inp envo w = (Inl e, w)"
  | (request) p w1 where
      "build_params lib c t enc u inp envo w = (Inr p, w1)"
      "spawned w1 = spawned w"
      "snd (try_body lib c sp t enc errs u inp envo w) = w1\<lparr>spawned := spawned w @ [p]\<rparr>"
      "fst (try_body lib c sp t enc errs u inp envo w) =
         (case run sp p of
            Inl e \<Rightarrow> Inl e
          | Inr result \<Rightarrow>
              (case safe_decode lib enc errs (cp_stdout result) of
                 Inl e \<Rightarrow> Inl e
               | Inr out \<Rightarrow>
                   (case safe_decode lib enc errs (cp_stderr result) of
                      Inl e \<Rightarrow> Inl e
                    | Inr err \<Rightarrow>
                        Inr \<lparr>stdout = Some out, stderr = err,
                             returncode = cp_returncode result, timeout_key = None\<rparr>)))"
proof (cases "build_params lib c t enc u inp envo w")
  case (Pair r w1)
  show thesis
  proof (cases r)
    case (Inl e)
    with Pair build_params_raises [of lib c t enc u inp envo w e w1] have "w1 = w" by simp
    with Pair Inl show thesis by (intro no_request [of e]) (simp_all add: try_body_def)
  next
    case (Inr p)
    from Pair build_params_spawned [of lib c t enc u inp envo w] have sp: "spawned w1 = spawned w" by simp
    show thesis
      by (rule request [of p w1]) (use Pair Inr sp in \<open>simp_all add: try_body_def Let_def split: sum.split\<close>)
  qed
qed

lemma execute_command_cases [consumes 1, case_names no_request request]:
  assumes valid: "isinstance_list_tuple_str command"
  obtains (no_request) e where
      "build_params lib (fst (prepare_command lib command shell)) t enc
         (snd (prepare_command lib command shell)) inp envo w = (Inl e, w)"
      "execute_command lib command sp t enc errs shell inp envo w =
         (handle_exception lib (fst (prepare_command lib command shell)) t enc errs e, w)"
  | (request) p w1 where
      "build_params lib (fst (prepare_command lib command shell)) t enc
         (snd (prepare_command lib command shell)) inp envo w = (Inr p, w1)"
      "spawned w1 = spawned w"
      "snd (execute_command lib command sp t enc errs shell inp envo w) =
         w1\<lparr>spawned := spawned w @ [p]\<rparr>"
      "fst (execute_command lib command sp t enc errs shell inp envo w) =
         (case run sp p of
            Inl e \<Rightarrow> handle_exception lib (fst (prepare_command lib command shell)) t enc errs e
          | Inr result \<Rightarrow>
              (case safe_decode lib enc errs (cp_stdout result) of
                 Inl e \<Rightarrow>
                   handle_exception lib (fst (prepare_command lib command shell)) t enc errs e
               | Inr out \<Rightarrow>
                   (case safe_decode lib enc errs (cp_stderr result) of
                      Inl e \<Rightarrow>
                        handle_exception lib (fst (prepare_command lib command shell)) t enc errs e
                    | Inr err \<Rightarrow>
                        Inr \<lparr>stdout = Some out, stderr = err,
                             returncode = cp_returncode result, timeout_key = None\<rparr>)))"
proof (cases rule: try_body_cases [of lib "fst (prepare_command lib command shell)" t enc
      "snd (prepare_command lib command shell)" inp envo w sp errs])
  case (no_request e)
  then show thesis
    by (intro that(1) [of e]) (simp_all add: execute_command_valid [OF valid])
next
  case (request p w1)
  let ?body = "try_body lib (fst (prepare_command lib command shell)) sp t enc errs
      (snd (prepare_command lib command shell)) inp envo w"
  have ex: "execute_command lib command sp t enc errs shell inp envo w =
      (case fst ?body of
         Inr result \<Rightarrow> Inr result
       | Inl e \<Rightarrow> handle_exception lib (fst (prepare_command lib command shell)) t enc errs e,
       snd ?body)"
    by (simp add: execute_command_valid [OF valid] split_beta split: sum.split)
  show thesis
  proof (rule that(2) [of p w1])
    show "snd (execute_command lib command sp t enc errs shell inp envo w) =
        w1\<lparr>spawned := spawned w @ [p]\<rparr>"
      using request(3) by (simp add: ex)
    show "fst (execute_command lib command sp t enc errs shell inp envo w) =
         (case run sp p of
            Inl e \<Rightarrow> handle_exception lib (fst (prepare_command lib command shell)) t enc errs e
          | Inr result \<Rightarrow>
              (case safe_decode lib enc errs (cp_stdout result) of
                 Inl e \<Rightarrow>
                   handle_exception lib (fst (prepare_command lib command shell)) t enc errs e
               | Inr out \<Rightarrow>
                   (case safe_decode lib enc errs (cp_stderr result) of
                      Inl e \<Rightarrow>
                        handle_exception lib (fst (prepare_command lib command shell)) t enc errs e
                    | Inr err \<Rightarrow>
                        Inr \<lparr>stdout = Some out, stderr = err,
                             returncode = cp_returncode result, timeout_key = None\<rparr>)))"
      by (simp add: ex request(4) split: sum.split)
  qed (use request in simp_all)
qed

text \<open>The definitions to unfold when a call is evaluated on the sample runtime.\<close>

lemmas run_defs =
  execute_command_def prepare_command_def try_body_def build_params_def encode_input_def
  merge_environment_def os_environ_copy_def dict_update_def handle_exception_def cmd_name_def
  format_value_def str_split_def isspace_def str_int_def str_nat.simps no_attribute_split_def

lemmas sample_defs =
  sample_lib_def sample_shlex_split_def sample_decode_def sample_encode_def bytes_repr_def
  repr_byte_def to_bytes_def sample_subprocess_def sample_run_def sample_exec_def
  sample_world_def exiting_subprocess_def lossy_lib_def lossy_decode_def char_of_eq_iff

subsection \<open>The clauses of the handler\<close>

text \<open>
  When a clause returns, the return code is the one the table of the specification gives
  for the exception; outside the clause of \<^verbatim>\<open>CalledProcessError\<close> it is one of -1 to
  -6 and the message is not empty. A clause returns when the exception is an
  \<^verbatim>\<open>Exception\<close> or a \<^verbatim>\<open>KeyboardInterrupt\<close>, the streams it carries can be decoded and
  the command has a name.
\<close>

lemma handle_exception_code:
  assumes "handle_exception lib c t enc errs e = Inr out"
  shows "spec_return_code e = Some (returncode out)"
  using assms
  by (cases e) (auto simp: handle_exception_def split: sum.splits if_splits)



subsection \<open>No exception leaves the function (claim C1)\<close>






subsection \<open>Input validation (claim C2)\<close>

text \<open>
  Claim C2, as the code has it. A command that is not a \<^verbatim>\<open>str\<close>, a \<^verbatim>\<open>list\<close> or a
  \<^verbatim>\<open>tuple\<close> object is answered at once with the return code -2, no \<^verbatim>\<open>stdout\<close> and
  the fixed message about the type; the state is the one before the call, so nothing
  was handed to the process layer. The test looks at the container only, not at its
  elements.
\<close>

theorem invalid_command_type:
  assumes "\<not> isinstance_list_tuple_str command"
  shows "execute_command lib command subprocess timeout encoding errors shell input_data
           environment w =
         (Inr \<lparr>stdout = None, stderr = ''Error: command must be a string or list of strings'',
               returncode = - 2, timeout_key = None\<rparr>, w)"
  using assms by (simp add: execute_command_def)

text \<open>An integer as command.\<close>

theorem invalid_command_type_witness:
  "\<not> isinstance_list_tuple_str (PInt 5) \<and>
   execute_command sample_lib (PInt 5) sample_subprocess 30 ''latin-1'' ''ignore'' False None None
     sample_world =
   (Inr \<lparr>stdout = None, stderr = ''Error: command must be a string or list of strings'',
         returncode = - 2, timeout_key = None\<rparr>, sample_world)"
  using invalid_command_type [of "PInt 5" sample_lib sample_subprocess 30 "''latin-1''"
      "''ignore''" False None None sample_world]
  by simp

text \<open>
  Claim C2 as written fails: a list whose element is an integer is neither a string
  nor a sequence of strings, yet it passes the test of line 34, the request reaches
  \<^verbatim>\<open>subprocess.run\<close>, and the \<^verbatim>\<open>TypeError\<close> raised there comes back as the return
  code -1.
\<close>

theorem list_of_integers_not_rejected:
  "\<not> is_string (PList [PInt 1]) \<and> \<not> sequence_of_strings (PList [PInt 1]) \<and>
   fst (execute_command sample_lib (PList [PInt 1]) sample_subprocess 30 ''latin-1'' ''ignore''
          False None None sample_world) =
   Inr \<lparr>stdout = None,
        stderr = ''Unexpected error: TypeError'' @ [CHR 0x0A]
                 @ ''Details: expected str, bytes or os.PathLike object'',
        returncode = - 1, timeout_key = None\<rparr> \<and>
   length (spawned (snd (execute_command sample_lib (PList [PInt 1]) sample_subprocess 30
          ''latin-1'' ''ignore'' False None None sample_world))) = 1"
  by (simp add: execute_command_def prepare_command_def try_body_def build_params_def
      encode_input_def merge_environment_def handle_exception_def sample_subprocess_def
      sample_run_def sample_world_def)

subsection \<open>Return codes (claim C3)\<close>




subsection \<open>A string command without the shell flag (claim C4)\<close>



subsection \<open>The timeout (claim C5)\<close>

text \<open>
  When the request times out and the decode step returns a text for both partial
  streams, the result is the dictionary of the clause: the two texts, the note with the
  timeout appended to the second, the return code -3 and the key \<^verbatim>\<open>timeout\<close>. A stream
  that is \<open>None\<close> gives the empty text.
\<close>

lemma timeout_outcome:
  assumes call: "execute_command lib command sp t enc errs shell inp envo w = (r, w')"
    and request: "spawned w' = spawned w @ [p]"
    and raised: "run sp p = Inl (TimeoutExpired out err m)"
    and out: "safe_decode lib enc errs out = Inr so"
    and err: "safe_decode lib enc errs err = Inr se"
  shows "r = Inr \<lparr>stdout = Some so,
                   stderr = se @ [CHR 0x0A] @ ''Command timed out after '' @ str_int t
                            @ '' seconds'',
                   returncode = - 3, timeout_key = Some True\<rparr>"
proof (cases "isinstance_list_tuple_str command")
  case False
  with call request show ?thesis by (simp add: execute_command_def)
next
  case True
  then show ?thesis
  proof (cases rule: execute_command_cases [where lib = lib and shell = shell and t = t
        and enc = enc and inp = inp and envo = envo and w = w and sp = sp and errs = errs])
    case (no_request e)
    with call request show ?thesis by simp
  next
    case (request p' w1)
    with call \<open>spawned w' = spawned w @ [p]\<close> have "p' = p" by simp
    with request(4) call raised out err show ?thesis
      by (cases out; cases err) (auto simp: handle_exception_def)
  qed
qed

text \<open>A result carries the key \<^verbatim>\<open>timeout\<close> only when the \<^verbatim>\<open>try\<close> block raised \<^verbatim>\<open>TimeoutExpired\<close>.\<close>

lemma timeout_key_only_on_timeout:
  assumes call: "execute_command lib command sp t enc errs shell inp envo w = (Inr out, w')"
    and key: "timeout_key out \<noteq> None"
  shows "isinstance_list_tuple_str command \<and>
         (\<exists>so se m. fst (try_body lib (fst (prepare_command lib command shell)) sp t enc errs
                          (snd (prepare_command lib command shell)) inp envo w) =
                     Inl (TimeoutExpired so se m)) \<and>
         returncode out = - 3 \<and> timeout_key out = Some True"
proof -
  have valid: "isinstance_list_tuple_str command"
    using call key by (auto simp: execute_command_def split: if_splits)
  let ?c = "fst (prepare_command lib command shell)"
  let ?body = "try_body lib ?c sp t enc errs (snd (prepare_command lib command shell)) inp envo w"
  have no_key: "timeout_key result = None" if "fst ?body = Inr result" for result
  proof (cases rule: try_body_cases [of lib ?c t enc "snd (prepare_command lib command shell)"
        inp envo w sp errs])
    case (no_request e)
    with that show ?thesis by simp
  next
    case (request p w1)
    with that show ?thesis by (auto split: sum.splits)
  qed
  from call have ex: "(case fst ?body of
         Inr result \<Rightarrow> Inr result
       | Inl e \<Rightarrow> handle_exception lib ?c t enc errs e) = Inr out"
    by (auto simp: execute_command_valid [OF valid] split_beta split: sum.splits)
  show ?thesis
  proof (cases "fst ?body")
    case (Inr result)
    with ex no_key [of result] key show ?thesis by simp
  next
    case (Inl e)
    with ex have h: "handle_exception lib ?c t enc errs e = Inr out" by simp
    with key have "\<exists>so se m. e = TimeoutExpired so se m"
      by (cases e) (auto simp: handle_exception_def split: sum.splits if_splits)
    then obtain so se m where e: "e = TimeoutExpired so se m" by blast
    from handle_exception_code [OF h] e have "returncode out = - 3" by simp
    moreover from h e have "timeout_key out = Some True"
      by (auto simp: handle_exception_def split: sum.splits if_splits)
    ultimately show ?thesis using valid Inl e by simp
  qed
qed

text \<open>
  Claim C5 fails on the code at a timeout whose partial output the decode step cannot
  decode. The script has written the byte 255 when it times out; under the codec
  \<^verbatim>\<open>punycode\<close> the second \<^verbatim>\<open>decode\<close> of \<^verbatim>\<open>safe_decode\<close> raises as the first did, inside
  the clause for \<^verbatim>\<open>TimeoutExpired\<close>, and the \<^verbatim>\<open>UnicodeDecodeError\<close> leaves the function
  instead of the result with the return code -3. Under \<^verbatim>\<open>latin-1\<close> the same timeout
  gives that result.
\<close>

theorem timeout_with_undecodable_output_raises:
  "run sample_subprocess
     \<lparr>p_args = PList [PStr ''./emit_ff_then_sleep''], p_stdout = PIPE, p_stderr = PIPE,
      p_text = False, p_timeout = 1, p_shell = False, p_input = None, p_env = None\<rparr> =
     Inl (TimeoutExpired (Some [0xFF]) None ''timed out'') \<and>
   fst (execute_command sample_lib (PList [PStr ''./emit_ff_then_sleep'']) sample_subprocess 1
          ''punycode'' ''strict'' False None None sample_world) =
     Inl (UnicodeDecodeError ''ordinal not in range(128)'') \<and>
   fst (execute_command sample_lib (PList [PStr ''./emit_ff_then_sleep'']) sample_subprocess 1
          ''latin-1'' ''strict'' False None None sample_world) =
     Inr \<lparr>stdout = Some [CHR 0xFF],
          stderr = [CHR 0x0A] @ ''Command timed out after 1 seconds'',
          returncode = - 3, timeout_key = Some True\<rparr>"
  by (simp add: run_defs sample_defs)

subsection \<open>A program that does not exist (claim C6)\<close>

text \<open>
  When the request raises \<^verbatim>\<open>FileNotFoundError\<close> and the prepared command has a name, the
  result is the dictionary of the clause: no \<^verbatim>\<open>stdout\<close>, the message with the name and
  the text of the error, and the return code -4.
\<close>

lemma not_found_outcome:
  assumes call: "execute_command lib command sp t enc errs shell inp envo w = (r, w')"
    and request: "spawned w' = spawned w @ [p]"
    and raised: "run sp p = Inl (FileNotFoundError m)"
    and name: "cmd_name (fst (prepare_command lib command shell)) = Inr n"
  shows "r = Inr \<lparr>stdout = None,
                   stderr = ''Command not found: '' @ format_value lib n @ [CHR 0x0A]
                            @ ''Error: '' @ m,
                   returncode = - 4, timeout_key = None\<rparr>"
proof (cases "isinstance_list_tuple_str command")
  case False
  with call request show ?thesis by (simp add: execute_command_def)
next
  case True
  then show ?thesis
  proof (cases rule: execute_command_cases [where lib = lib and shell = shell and t = t
        and enc = enc and inp = inp and envo = envo and w = w and sp = sp and errs = errs])
    case (no_request e)
    with call request show ?thesis by simp
  next
    case (request p' w1)
    with call \<open>spawned w' = spawned w @ [p]\<close> have "p' = p" by simp
    with request(4) call raised name show ?thesis
      by (auto simp: handle_exception_def)
  qed
qed

text \<open>
  Claim C6 fails on the code for a command that is a tuple. Line 34 accepts the tuple,
  \<^verbatim>\<open>subprocess.run\<close> raises \<^verbatim>\<open>FileNotFoundError\<close> for the program that does not exist,
  and line 109 takes the branch for strings, since a tuple is not a list: the
  \<^verbatim>\<open>AttributeError\<close> of \<^verbatim>\<open>command.split()\<close> leaves the function. The same program in a
  list gives the result with the return code -4.
\<close>

theorem tuple_command_not_found_raises:
  "isinstance_list_tuple_str (PTuple [PStr ''no_such_program'']) \<and>
   run sample_subprocess
     \<lparr>p_args = PTuple [PStr ''no_such_program''], p_stdout = PIPE, p_stderr = PIPE,
      p_text = False, p_timeout = 30, p_shell = False, p_input = None, p_env = None\<rparr> =
     Inl (FileNotFoundError ''[Errno 2] No such file or directory'') \<and>
   fst (execute_command sample_lib (PTuple [PStr ''no_such_program'']) sample_subprocess 30
          ''latin-1'' ''ignore'' False None None sample_world) =
     Inl (OtherException ''AttributeError'' (no_attribute_split ''tuple'')) \<and>
   fst (execute_command sample_lib (PList [PStr ''no_such_program'']) sample_subprocess 30
          ''latin-1'' ''ignore'' False None None sample_world) =
     Inr \<lparr>stdout = None,
          stderr = ''Command not found: no_such_program'' @ [CHR 0x0A]
                   @ ''Error: [Errno 2] No such file or directory'',
          returncode = - 4, timeout_key = None\<rparr>"
  by (simp add: run_defs sample_defs)

subsection \<open>The decode step (claim C7)\<close>




subsection \<open>The environment (claim C8)\<close>



subsection \<open>Input that cannot be encoded (claim C9)\<close>

text \<open>
  Claim C9, as the code has it. For a command of an accepted type and an input string
  that \<^verbatim>\<open>encode\<close> refuses (the characters or the name of the encoding), the exception
  is raised in the \<^verbatim>\<open>try\<close> block before a request is made; the result is the dictionary
  of the last clause, with the return code -1, no \<^verbatim>\<open>stdout\<close> and the class and the
  text of the exception, and the state is the one before the call.
\<close>

theorem unencodable_input_is_unexpected_error:
  assumes valid: "isinstance_list_tuple_str command"
    and raised: "encode lib s enc = Inl (n, m)"
  shows "execute_command lib command sp t enc errs shell (Some (InStr s)) envo w =
         (Inr \<lparr>stdout = None,
               stderr = ''Unexpected error: '' @ n @ [CHR 0x0A] @ ''Details: '' @ m,
               returncode = - 1, timeout_key = None\<rparr>, w)"
  using raised
  by (simp add: execute_command_valid [OF valid] try_body_def build_params_def encode_input_def
      handle_exception_def)

text \<open>A character that \<^verbatim>\<open>ascii\<close> cannot encode.\<close>

theorem unencodable_input_is_unexpected_error_witness:
  "isinstance_list_tuple_str (PList [PStr ''echo'']) \<and>
   encode sample_lib [CHR 0xE9] ''ascii'' = Inl (''UnicodeEncodeError'', ''ordinal not in range(128)'') \<and>
   execute_command sample_lib (PList [PStr ''echo'']) sample_subprocess 30 ''ascii'' ''ignore'' False
     (Some (InStr [CHR 0xE9])) None sample_world =
   (Inr \<lparr>stdout = None,
         stderr = ''Unexpected error: UnicodeEncodeError'' @ [CHR 0x0A]
                  @ ''Details: ordinal not in range(128)'',
         returncode = - 1, timeout_key = None\<rparr>, sample_world)"
proof -
  have e: "encode sample_lib [CHR 0xE9] ''ascii'' =
      Inl (''UnicodeEncodeError'', ''ordinal not in range(128)'')"
    by (simp add: sample_defs)
  from e unencodable_input_is_unexpected_error [of "PList [PStr ''echo'']" sample_lib
      "[CHR 0xE9]" "''ascii''" "''UnicodeEncodeError''" "''ordinal not in range(128)''"
      sample_subprocess 30 "''ignore''" False None sample_world]
  show ?thesis by simp
qed

text \<open>
  Claim C9 as written fails for a command whose type is not accepted: line 34 answers
  with the return code -2 before the input is looked at.
\<close>

theorem invalid_command_with_unencodable_input:
  "encode sample_lib [CHR 0xE9] ''ascii'' = Inl (''UnicodeEncodeError'', ''ordinal not in range(128)'') \<and>
   execute_command sample_lib (PInt 5) sample_subprocess 30 ''ascii'' ''ignore'' False
     (Some (InStr [CHR 0xE9])) None sample_world =
   (Inr \<lparr>stdout = None, stderr = ''Error: command must be a string or list of strings'',
         returncode = - 2, timeout_key = None\<rparr>, sample_world)"
  by (simp add: execute_command_def sample_defs)

subsection \<open>The name of a tuple command (claim C10)\<close>

text \<open>
  Claim C10. For a command that is a tuple, when the request raises
  \<^verbatim>\<open>FileNotFoundError\<close> or \<^verbatim>\<open>PermissionError\<close>, the call raises the \<^verbatim>\<open>AttributeError\<close>
  of \<^verbatim>\<open>command.split()\<close> instead of returning a result. The expression for the name has
  a value only for a list and for a string.
\<close>

theorem tuple_command_name_extraction_raises:
  assumes call: "execute_command lib (PTuple xs) sp t enc errs shell inp envo w = (r, w')"
    and request: "spawned w' = spawned w @ [p]"
    and raised: "run sp p = Inl (FileNotFoundError m) \<or> run sp p = Inl (PermissionError m)"
  shows "r = Inl (OtherException ''AttributeError'' (no_attribute_split ''tuple'')) \<and>
         (\<forall>c n. cmd_name c = Inr n \<longrightarrow> (\<exists>ys. c = PList ys) \<or> (\<exists>s. c = PStr s))"
proof
  have v: "isinstance_list_tuple_str (PTuple xs)" by simp
  have c: "fst (prepare_command lib (PTuple xs) shell) = PTuple xs"
    by (simp add: prepare_command_def)
  from v show "r = Inl (OtherException ''AttributeError'' (no_attribute_split ''tuple''))"
  proof (cases rule: execute_command_cases [where lib = lib and shell = shell and t = t
        and enc = enc and inp = inp and envo = envo and w = w and sp = sp and errs = errs])
    case (no_request e)
    with call request show ?thesis by simp
  next
    case (request p' w1)
    with call \<open>spawned w' = spawned w @ [p]\<close> have "p' = p" by simp
    with request(4) call raised c show ?thesis
      by (auto simp: handle_exception_def cmd_name_def)
  qed
  show "\<forall>c n. cmd_name c = Inr n \<longrightarrow> (\<exists>ys. c = PList ys) \<or> (\<exists>s. c = PStr s)"
    by (auto simp: cmd_name_def split: pyval.splits)
qed

text \<open>A tuple that names a program that does not exist.\<close>

theorem tuple_command_name_extraction_raises_witness:
  "spawned (snd (execute_command sample_lib (PTuple [PStr ''no_such_program'', PStr ''--version''])
       sample_subprocess 30 ''latin-1'' ''ignore'' False None None sample_world)) =
     spawned sample_world @
       [\<lparr>p_args = PTuple [PStr ''no_such_program'', PStr ''--version''], p_stdout = PIPE,
         p_stderr = PIPE, p_text = False, p_timeout = 30, p_shell = False, p_input = None,
         p_env = None\<rparr>] \<and>
   run sample_subprocess
     \<lparr>p_args = PTuple [PStr ''no_such_program'', PStr ''--version''], p_stdout = PIPE,
      p_stderr = PIPE, p_text = False, p_timeout = 30, p_shell = False, p_input = None,
      p_env = None\<rparr> = Inl (FileNotFoundError ''[Errno 2] No such file or directory'') \<and>
   fst (execute_command sample_lib (PTuple [PStr ''no_such_program'', PStr ''--version''])
       sample_subprocess 30 ''latin-1'' ''ignore'' False None None sample_world) =
     Inl (OtherException ''AttributeError'' (no_attribute_split ''tuple''))"
proof -
  let ?p = "\<lparr>p_args = PTuple [PStr ''no_such_program'', PStr ''--version''], p_stdout = PIPE,
      p_stderr = PIPE, p_text = False, p_timeout = 30, p_shell = False, p_input = None,
      p_env = None\<rparr>"
  let ?call = "execute_command sample_lib (PTuple [PStr ''no_such_program'', PStr ''--version''])
       sample_subprocess 30 ''latin-1'' ''ignore'' False None None sample_world"
  have log: "spawned (snd ?call) = spawned sample_world @ [?p]"
    by (simp add: run_defs sample_defs)
  have raised: "run sample_subprocess ?p =
      Inl (FileNotFoundError ''[Errno 2] No such file or directory'')"
    by (simp add: sample_defs)
  from log raised
    tuple_command_name_extraction_raises [of sample_lib
      "[PStr ''no_such_program'', PStr ''--version'']" sample_subprocess 30 "''latin-1''"
      "''ignore''" False None None sample_world "fst ?call" "snd ?call" ?p
      "''[Errno 2] No such file or directory''"]
  show ?thesis by simp
qed

end
